theory Spec2Isabelle
  imports Main "HOL-Library.Sublist" "HOL-Library.Extended_Nat"
begin

section \<open>Values, keys and errors\<close>

text \<open>
  A JavaScript value as \<open>useGlobal\<close> sees it: \<open>undefined\<close>, \<open>null\<close>, or a value of the
  caller's type \<open>T\<close>. \<open>T\<close> is opaque data: a function stored as a value is outside the
  model, since \<open>typeof x === "function"\<close> sends functions down the other branch.
\<close>

datatype 'a jsval = Undefined | Null | Val 'a

text \<open>\<^verbatim>\<open>data ?? null\<close>: the nullish coalescing of line 44.\<close>

fun orNull :: "'a jsval \<Rightarrow> 'a jsval" where
  "orNull Undefined = Null"
| "orNull Null = Null"
| "orNull (Val x) = Val x"

text \<open>\<^verbatim>\<open>export type StateKey = string | string[]\<close>\<close>

datatype StateKey = KeyString string | KeyArray "string list"

definition GLOBAL_KEY :: string where
  "GLOBAL_KEY = ''__GLOBAL_STATE__''"

text \<open>\<^verbatim>\<open>Array.prototype.join(sep)\<close> on an array of strings.\<close>

fun join :: "string list \<Rightarrow> string \<Rightarrow> string" where
  "join [] sep = []"
| "join [x] sep = x"
| "join (x # y # ys) sep = x @ sep @ join (y # ys) sep"

type_synonym QueryKey = "string list"

text \<open>\<^verbatim>\<open>[GLOBAL_KEY, Array.isArray(key) ? key.join(".") : key]\<close> (lines 42 and 50).\<close>

definition theKey :: "StateKey \<Rightarrow> QueryKey" where
  "theKey key = [GLOBAL_KEY, (case key of KeyArray xs \<Rightarrow> join xs ''.'' | KeyString s \<Rightarrow> s)]"

text \<open>
  \<^verbatim>\<open>!key\<close> for \<^verbatim>\<open>key?: StateKey\<close>: an absent argument and the empty string are falsy,
  every array (the empty one too) is truthy.
\<close>

fun falsy :: "StateKey option \<Rightarrow> bool" where
  "falsy None = True"
| "falsy (Some (KeyString s)) = (s = [])"
| "falsy (Some (KeyArray xs)) = False"

text \<open>
  The two errors a call can end in: the one \<open>useGlobal\<close> throws itself (line 34), and the
  one the library's \<open>useQueryClient\<close> throws when no provider is mounted above the caller.
\<close>

datatype Error = NoQueryClientAvailable | NoQueryClientSet

text \<open>
  \<^verbatim>\<open>initialData?: T | (() => T)\<close>: a value or an initializer; an argument left out is
  \<open>InitialValue Undefined\<close>.
\<close>

datatype 'a InitialData = InitialValue "'a jsval" | Initializer "unit \<Rightarrow> 'a jsval"

text \<open>\<^verbatim>\<open>React.SetStateAction<T>\<close>: a new value, or a function of the previous one.\<close>

datatype 'a SetStateAction = NewValue "'a jsval" | Updater "'a jsval \<Rightarrow> 'a jsval"

section \<open>The query cache of \<^verbatim>\<open>@tanstack/react-query\<close>\<close>

text \<open>
  The library is not part of the repository; what follows models the part of its
  documented behaviour that \<open>useGlobal\<close> relies on. A query client is identified by a
  reference; its cache maps a query key to a query.
\<close>

text \<open>The options object that \<open>useGlobal\<close> passes to \<open>useQuery\<close> (lines 56 to 62).\<close>

record 'a QueryOptions =
  queryKey :: QueryKey
  enabled :: bool
  queryFn :: "(unit \<Rightarrow> 'a jsval) option"
  initialData :: "'a jsval"
  staleTime :: enat

text \<open>The actions a query dispatches; each dispatch calls every observer of the query.\<close>

datatype Action = ActionSuccess | ActionInvalidate | ActionFetch | ActionSetState

datatype FetchStatus = Idle | Fetching

record 'a Query =
  data :: "'a jsval"
  isInvalidated :: bool
  fetchStatus :: FetchStatus
  observers :: "'a QueryOptions list"
  dispatched :: "Action list"

type_synonym client = nat

type_synonym 'a QueryCache = "QueryKey \<rightharpoonup> 'a Query"

text \<open>
  The state of the process: the slot \<^verbatim>\<open>globalThis.__astroQueryClient\<close>, the cache of every
  query client constructed so far, and how many have been constructed. Within major
  version 5 the library changed what an observer's \<open>initialData\<close> does to a query that
  exists but holds no data; \<open>seedsEmptyQuery\<close> selects the behaviour.
\<close>

record 'a world =
  astroQueryClient :: "client option"
  caches :: "client \<Rightarrow> 'a QueryCache"
  constructed :: nat
  seedsEmptyQuery :: bool

text \<open>\<^verbatim>\<open>new QueryClient()\<close>: a fresh client with an empty cache.\<close>

definition new_QueryClient :: "'a world \<Rightarrow> client \<times> 'a world" where
  "new_QueryClient w =
     (constructed w,
      w\<lparr>caches := (caches w)(constructed w := Map.empty),
        constructed := Suc (constructed w)\<rparr>)"

text \<open>A query as the cache builds it: its data is the initial data, nothing else has happened.\<close>

definition newQuery :: "'a jsval \<Rightarrow> 'a Query" where
  "newQuery d =
     \<lparr>data = d, isInvalidated = False, fetchStatus = Idle, observers = [], dispatched = []\<rparr>"

definition putQuery :: "client \<Rightarrow> QueryKey \<Rightarrow> 'a Query \<Rightarrow> 'a world \<Rightarrow> 'a world" where
  "putQuery c k q w = w\<lparr>caches := (caches w)(c := (caches w c)(k \<mapsto> q))\<rparr>"

text \<open>\<^verbatim>\<open>queryClient.getQueryData(key)\<close>: the data of the query with exactly this key.\<close>

definition getQueryData :: "client \<Rightarrow> QueryKey \<Rightarrow> 'a world \<Rightarrow> 'a jsval" where
  "getQueryData c k w = (case caches w c k of None \<Rightarrow> Undefined | Some q \<Rightarrow> data q)"

text \<open>
  \<^verbatim>\<open>queryClient.setQueryData(key, val)\<close> for a \<open>val\<close> that is not a function: \<open>undefined\<close>
  is ignored; any other value is stored in the query (built if absent), which is no
  longer invalidated and dispatches \<open>success\<close>.
\<close>

definition setQueryData :: "client \<Rightarrow> QueryKey \<Rightarrow> 'a jsval \<Rightarrow> 'a world \<Rightarrow> 'a world" where
  "setQueryData c k val w =
     (case val of
        Undefined \<Rightarrow> w
      | _ \<Rightarrow>
          (let q = (case caches w c k of None \<Rightarrow> newQuery Undefined | Some q \<Rightarrow> q)
           in putQuery c k
                (q\<lparr>data := val, isInvalidated := False,
                   dispatched := dispatched q @ [ActionSuccess]\<rparr>) w))"

text \<open>
  A filter \<^verbatim>\<open>{ queryKey }\<close> without \<^verbatim>\<open>exact\<close> matches every query whose key starts with
  the filter's key.
\<close>

definition matchQuery :: "QueryKey \<Rightarrow> QueryKey \<Rightarrow> bool" where
  "matchQuery filterKey k = prefix filterKey k"

text \<open>\<^verbatim>\<open>queryClient.removeQueries({ queryKey })\<close>: every matching query leaves the cache.\<close>

definition removeQueries :: "client \<Rightarrow> QueryKey \<Rightarrow> 'a world \<Rightarrow> 'a world" where
  "removeQueries c filterKey w =
     w\<lparr>caches := (caches w)
          (c := (\<lambda>k. if matchQuery filterKey k then None else caches w c k))\<rparr>"

text \<open>A query is active when one of its observers is enabled.\<close>

definition isActive :: "'a Query \<Rightarrow> bool" where
  "isActive q = list_ex enabled (observers q)"

text \<open>\<^verbatim>\<open>query.invalidate()\<close>: dispatches only if the query is not invalidated already.\<close>

definition invalidate :: "'a Query \<Rightarrow> 'a Query" where
  "invalidate q =
     (if isInvalidated q then q
      else q\<lparr>isInvalidated := True, dispatched := dispatched q @ [ActionInvalidate]\<rparr>)"

text \<open>
  \<^verbatim>\<open>query.fetch()\<close> up to the point where it yields: the query is fetching and has
  dispatched \<open>fetch\<close>. What the fetch function later resolves to is not modelled.
\<close>

definition fetch :: "'a Query \<Rightarrow> 'a Query" where
  "fetch q = q\<lparr>fetchStatus := Fetching, dispatched := dispatched q @ [ActionFetch]\<rparr>"

text \<open>
  \<^verbatim>\<open>queryClient.invalidateQueries({ queryKey })\<close>: every matching query is invalidated,
  and those of them that are active are refetched (\<open>refetchType\<close> defaults to \<open>active\<close>).
\<close>

definition invalidateQueries :: "client \<Rightarrow> QueryKey \<Rightarrow> 'a world \<Rightarrow> 'a world" where
  "invalidateQueries c filterKey w =
     w\<lparr>caches := (caches w)
          (c := (\<lambda>k. case caches w c k of
                        None \<Rightarrow> None
                      | Some q \<Rightarrow>
                          Some (if matchQuery filterKey k
                                then (let q' = invalidate q
                                      in if isActive q' then fetch q' else q')
                                else q)))\<rparr>"

text \<open>
  \<^verbatim>\<open>useQueryClient()\<close>: the client of the nearest provider; it throws when there is none.
  \<open>ctx\<close> is that provider's client.
\<close>

definition useQueryClient :: "client option \<Rightarrow> Error + client" where
  "useQueryClient ctx = (case ctx of None \<Rightarrow> Inl NoQueryClientSet | Some c \<Rightarrow> Inr c)"

text \<open>
  An enabled observer fetches on mount when the query has no data or is stale. Elapsed
  time is not modelled: data under an infinite stale time is stale only once invalidated,
  data under a finite one counts as stale.
\<close>

definition shouldFetchOnMount :: "'a Query \<Rightarrow> 'a QueryOptions \<Rightarrow> bool" where
  "shouldFetchOnMount q opts =
     (enabled opts \<and>
      (case data q of
         Undefined \<Rightarrow> True
       | _ \<Rightarrow> isInvalidated q \<or> staleTime opts \<noteq> \<infinity>))"

text \<open>
  \<^verbatim>\<open>useQuery(options)\<close>, called without a client of its own: the first render of a
  component together with its mount. The client comes from the provider. The query is
  built from \<open>initialData\<close> if the cache has none under the key; the observer subscribes;
  the result's \<open>data\<close> is the query's.
\<close>

definition useQuery ::
  "client option \<Rightarrow> 'a QueryOptions \<Rightarrow> 'a world \<Rightarrow> Error + ('a jsval \<times> 'a world)" where
  "useQuery ctx opts w =
     (case useQueryClient ctx of
        Inl e \<Rightarrow> Inl e
      | Inr c \<Rightarrow>
          (let q0 = (case caches w c (queryKey opts) of
                       None \<Rightarrow> newQuery (initialData opts)
                     | Some q \<Rightarrow>
                         (if seedsEmptyQuery w \<and> data q = Undefined \<and>
                             initialData opts \<noteq> Undefined
                          then q\<lparr>data := initialData opts,
                                 dispatched := dispatched q @ [ActionSetState]\<rparr>
                          else q));
               q1 = q0\<lparr>observers := observers q0 @ [opts]\<rparr>;
               q2 = (if shouldFetchOnMount q1 opts then fetch q1 else q1)
           in Inr (data q2, putQuery c (queryKey opts) q2 w)))"

section \<open>The shared cache registry\<close>

text \<open>
  \<^verbatim>\<open>export const queryClient =
    globalThis.__astroQueryClient || (globalThis.__astroQueryClient = new QueryClient())\<close>
  One evaluation of the module: the client it exports and the state it leaves.
\<close>

definition queryClient :: "'a world \<Rightarrow> client \<times> 'a world" where
  "queryClient w =
     (case astroQueryClient w of
        Some c \<Rightarrow> (c, w)
      | None \<Rightarrow>
          (let (c, w') = new_QueryClient w
           in (c, w'\<lparr>astroQueryClient := Some c\<rparr>)))"

section \<open>useGlobal\<close>

text \<open>The closures of lines 41 to 45 and 64 to 71, with what they capture as parameters.\<close>

definition get :: "client \<Rightarrow> StateKey \<Rightarrow> 'a world \<Rightarrow> 'a jsval" where
  "get qc key w = orNull (getQueryData qc (theKey key) w)"

definition setData ::
  "client \<Rightarrow> QueryKey \<Rightarrow> 'a jsval \<Rightarrow> 'a SetStateAction \<Rightarrow> 'a world \<Rightarrow> 'a world" where
  "setData qc k d arg w =
     (let val = (case arg of Updater f \<Rightarrow> f d | NewValue v \<Rightarrow> v)
      in setQueryData qc k val w)"

definition reset :: "client \<Rightarrow> QueryKey \<Rightarrow> 'a world \<Rightarrow> 'a world" where
  "reset qc k w = removeQueries qc k w"

definition refresh :: "client \<Rightarrow> QueryKey \<Rightarrow> 'a world \<Rightarrow> 'a world" where
  "refresh qc k w = invalidateQueries qc k w"

text \<open>What a call returns: the accessor object, or the tuple of hook mode.\<close>

datatype 'a Result =
    Accessor "StateKey \<Rightarrow> 'a world \<Rightarrow> 'a jsval"
  | Hook "'a jsval" "'a SetStateAction \<Rightarrow> 'a world \<Rightarrow> 'a world"
         "'a world \<Rightarrow> 'a world" "'a world \<Rightarrow> 'a world"

text \<open>
  \<^verbatim>\<open>typeof initialData === "function" ? initialData() : initialData\<close> (lines 51 to 54).
\<close>

definition theInitialData :: "'a InitialData \<Rightarrow> 'a jsval" where
  "theInitialData initData = (case initData of Initializer f \<Rightarrow> f () | InitialValue v \<Rightarrow> v)"

text \<open>The options of lines 56 to 62.\<close>

definition hookOptions :: "QueryKey \<Rightarrow> 'a jsval \<Rightarrow> 'a QueryOptions" where
  "hookOptions k d =
     \<lparr>queryKey = k, enabled = False, queryFn = Some (\<lambda>_. d), initialData = d,
      staleTime = \<infinity>\<rparr>"

text \<open>
  \<open>useGlobal ctx globalQueryClient key initialData\<close>: \<open>ctx\<close> is the client of the provider
  above the caller, if any; \<open>globalQueryClient\<close> is the imported singleton, typed
  \<^verbatim>\<open>QueryClient | undefined\<close> where it is assigned. An absent key is falsy, so the
  \<open>None\<close> branch below the test of line 40 is never taken.
\<close>

definition useGlobal ::
  "client option \<Rightarrow> client option \<Rightarrow> StateKey option \<Rightarrow> 'a InitialData \<Rightarrow> 'a world
   \<Rightarrow> Error + ('a Result \<times> 'a world)" where
  "useGlobal ctx globalQueryClient key initData w =
     (let queryClient' = (case useQueryClient ctx of
                            Inr c \<Rightarrow> Some c
                          | Inl _ \<Rightarrow> globalQueryClient)
      in case queryClient' of
           None \<Rightarrow> Inl NoQueryClientAvailable
         | Some qc \<Rightarrow>
             if falsy key then Inr (Accessor (get qc), w)
             else
               (case key of
                  None \<Rightarrow> Inr (Accessor (get qc), w)
                | Some k \<Rightarrow>
                    (let k' = theKey k
                     in case useQuery ctx (hookOptions k' (theInitialData initData)) w of
                          Inl e \<Rightarrow> Inl e
                        | Inr (d, w') \<Rightarrow>
                            Inr (Hook d (setData qc k' d) (refresh qc k') (reset qc k'), w'))))"

text \<open>
  No query of any cache has an enabled observer. It holds before anything ran and is kept
  by everything in the repository, since the only observers it creates are those of
  \<open>hookOptions\<close>.
\<close>

definition allInactive :: "'a world \<Rightarrow> bool" where
  "allInactive w = (\<forall>c k q. caches w c k = Some q \<longrightarrow> \<not> isActive q)"

section \<open>Worlds to run the code in\<close>

text \<open>
  The process before the registry module has been evaluated, and right after: in
  \<open>started\<close> the singleton is client 0, its cache is empty. In the runs below the
  provider supplies the singleton: both \<open>ctx\<close> and \<open>globalQueryClient\<close> are client 0.
\<close>

definition emptyWorld :: "'a world" where
  "emptyWorld =
     \<lparr>astroQueryClient = None, caches = (\<lambda>_. Map.empty), constructed = 0,
      seedsEmptyQuery = False\<rparr>"

definition started :: "'a world" where
  "started = snd (queryClient emptyWorld)"

text \<open>\<^verbatim>\<open>(n) => n + 1\<close> as an updater; below it is applied to numbers only.\<close>

definition increment :: "int jsval \<Rightarrow> int jsval" where
  "increment v = (case v of Val n \<Rightarrow> Val (n + 1) | _ \<Rightarrow> v)"

section \<open>Facts about the cache model\<close>

lemmas run_defs =
  useGlobal_def useQueryClient_def useQuery_def hookOptions_def theKey_def
  theInitialData_def started_def emptyWorld_def queryClient_def new_QueryClient_def
  newQuery_def shouldFetchOnMount_def putQuery_def setData_def setQueryData_def
  get_def getQueryData_def GLOBAL_KEY_def reset_def refresh_def removeQueries_def
  invalidateQueries_def invalidate_def isActive_def fetch_def matchQuery_def Let_def

lemma theInitialData_simps:
  "theInitialData (InitialValue v) = v"
  "theInitialData (Initializer f) = f ()"
  by (simp_all add: theInitialData_def)

lemma caches_removeQueries_self: "caches (removeQueries c k w) c k = None"
  by (simp add: removeQueries_def matchQuery_def)

lemma caches_putQuery:
  "caches (putQuery c k q w) c' k' = (if c' = c \<and> k' = k then Some q else caches w c' k')"
  by (simp add: putQuery_def)

lemma getQueryData_setQueryData:
  "v \<noteq> Undefined \<Longrightarrow> getQueryData c k (setQueryData c k v w) = v"
  by (cases v) (simp_all add: getQueryData_def setQueryData_def caches_putQuery Let_def)

lemma useQuery_absent:
  "caches w c k = None \<Longrightarrow>
   useQuery (Some c) (hookOptions k d) w =
     Inr (d, putQuery c k ((newQuery d)\<lparr>observers := [hookOptions k d]\<rparr>) w)"
  by (simp add: useQuery_def useQueryClient_def hookOptions_def newQuery_def
      shouldFetchOnMount_def)

lemma useQuery_present:
  "caches w c k = Some q \<Longrightarrow> data q \<noteq> Undefined \<or> d = Undefined \<Longrightarrow>
   useQuery (Some c) (hookOptions k d) w =
     Inr (data q, putQuery c k (q\<lparr>observers := observers q @ [hookOptions k d]\<rparr>) w)"
  by (cases "data q"; cases d; cases "seedsEmptyQuery w")
     (simp_all add: useQuery_def useQueryClient_def hookOptions_def shouldFetchOnMount_def)

lemma useQuery_no_provider: "useQuery None opts w = Inl NoQueryClientSet"
  by (simp add: useQuery_def useQueryClient_def)

text \<open>Mounting a hook adds its observer to the query and removes none.\<close>

lemma useQuery_observers:
  assumes "useQuery (Some c) (hookOptions k d) w = Inr (d', w')"
  shows "\<exists>q'. caches w' c k = Some q' \<and>
           observers q' =
             (case caches w c k of None \<Rightarrow> [] | Some q \<Rightarrow> observers q) @ [hookOptions k d]"
  using assms
  by (cases "caches w c k"; cases d; cases "seedsEmptyQuery w")
     (auto simp: useQuery_def useQueryClient_def hookOptions_def newQuery_def
        shouldFetchOnMount_def caches_putQuery Let_def split: jsval.splits)

section \<open>The two modes of useGlobal\<close>

lemma useGlobal_hook:
  "\<not> falsy (Some k) \<Longrightarrow>
   useGlobal (Some c) g (Some k) i w =
     (case useQuery (Some c) (hookOptions (theKey k) (theInitialData i)) w of
        Inl e \<Rightarrow> Inl e
      | Inr (d, w') \<Rightarrow>
          Inr (Hook d (setData c (theKey k) d) (refresh c (theKey k)) (reset c (theKey k)), w'))"
  by (simp add: useGlobal_def useQueryClient_def Let_def)

lemma useGlobal_accessor:
  "falsy key \<Longrightarrow> useGlobal (Some c) g key i w = Inr (Accessor (get c), w)"
  "falsy key \<Longrightarrow> useGlobal None (Some c) key i w = Inr (Accessor (get c), w)"
  by (cases key; simp add: useGlobal_def useQueryClient_def Let_def split: StateKey.splits)+

text \<open>
  A call that returned a tuple was made with a truthy key, and the tuple's functions are
  the closures over the resolved client, the encoded key and the value just read.
\<close>

lemma useGlobal_HookD:
  assumes "useGlobal (Some c) g (Some k) i w = Inr (Hook d sv rf rs, w')"
  shows "\<not> falsy (Some k) \<and> sv = setData c (theKey k) d \<and> rf = refresh c (theKey k) \<and>
         rs = reset c (theKey k) \<and>
         useQuery (Some c) (hookOptions (theKey k) (theInitialData i)) w = Inr (d, w')"
proof (cases "falsy (Some k)")
  case True
  with assms show ?thesis by (simp add: useGlobal_accessor)
next
  case False
  with assms show ?thesis
    by (auto simp: useGlobal_hook split: sum.splits prod.splits)
qed

text \<open>
  Hook mode needs a provider: \<open>useQuery\<close> is called without a client argument, so without
  a provider it throws the library's error although the singleton was resolved.
\<close>

lemma useGlobal_no_provider:
  "\<not> falsy (Some k) \<Longrightarrow> useGlobal None (Some c) (Some k) i w = Inl NoQueryClientSet"
  by (simp add: useGlobal_def useQueryClient_def useQuery_no_provider Let_def)

text \<open>
  The observer of a hook is disabled, so mounting a hook never makes a query active.
\<close>

lemma hook_mount_inactive:
  assumes "useGlobal (Some c) g (Some k) i w0 = Inr (Hook d setValue rf rs, w1)"
  shows "\<exists>q1. caches w1 c (theKey k) = Some q1 \<and>
           isActive q1 = (case caches w0 c (theKey k) of None \<Rightarrow> False | Some q0 \<Rightarrow> isActive q0)"
proof -
  from assms have "useQuery (Some c) (hookOptions (theKey k) (theInitialData i)) w0 = Inr (d, w1)"
    using useGlobal_HookD by blast
  from useQuery_observers [OF this] show ?thesis
    by (auto simp: isActive_def hookOptions_def split: option.splits)
qed

section \<open>No query is ever active\<close>

lemma allInactive_emptyWorld: "allInactive emptyWorld"
  by (simp add: allInactive_def emptyWorld_def)

lemma allInactive_queryClient: "allInactive w \<Longrightarrow> allInactive (snd (queryClient w))"
  by (auto simp: allInactive_def queryClient_def new_QueryClient_def split: option.splits if_splits)

lemma allInactive_setData: "allInactive w \<Longrightarrow> allInactive (setData c k d a w)"
  by (cases "caches w c k")
     (auto simp: allInactive_def setData_def setQueryData_def caches_putQuery newQuery_def
        isActive_def Let_def split: jsval.splits if_splits)

lemma allInactive_reset: "allInactive w \<Longrightarrow> allInactive (reset c k w)"
  by (auto simp: allInactive_def reset_def removeQueries_def split: if_splits)

lemma isActive_invalidate: "isActive (invalidate q) = isActive q"
  by (simp add: invalidate_def isActive_def)

lemma allInactive_refresh: "allInactive w \<Longrightarrow> allInactive (refresh c k w)"
  by (auto simp: allInactive_def refresh_def invalidateQueries_def isActive_invalidate Let_def
        split: if_splits option.splits)

lemma allInactive_useGlobal:
  assumes "allInactive w" and "useGlobal ctx g key i w = Inr (r, w')"
  shows "allInactive w'"
proof (cases "falsy key")
  case True
  with assms show ?thesis
    by (auto simp: useGlobal_def Let_def split: option.splits)
next
  case False
  then obtain k where key: "key = Some k" by (cases key) auto
  from assms(2) False key obtain c d where
    q: "useQuery (Some c) (hookOptions (theKey k) (theInitialData i)) w = Inr (d, w')"
    by (cases ctx)
       (auto simp: useGlobal_def useQuery_no_provider useQueryClient_def Let_def
          split: option.splits sum.splits prod.splits)
  from useQuery_observers [OF q] obtain q' where
    q': "caches w' c (theKey k) = Some q'"
      "observers q' = (case caches w c (theKey k) of None \<Rightarrow> [] | Some q \<Rightarrow> observers q)
          @ [hookOptions (theKey k) (theInitialData i)]"
    by blast
  have other: "caches w' c' k' = caches w c' k'" if "(c', k') \<noteq> (c, theKey k)" for c' k'
    using q that
    by (auto simp: useQuery_def useQueryClient_def caches_putQuery hookOptions_def Let_def)
  show ?thesis
    unfolding allInactive_def
  proof (intro allI impI)
    fix c' k' p assume p: "caches w' c' k' = Some p"
    show "\<not> isActive p"
    proof (cases "(c', k') = (c, theKey k)")
      case True
      with p q' have "p = q'" by simp
      with q'(2) assms(1) show ?thesis
        by (auto simp: isActive_def allInactive_def hookOptions_def split: option.splits)
    next
      case False
      with other p assms(1) show ?thesis by (simp add: allInactive_def)
    qed
  qed
qed

section \<open>The configuration error\<close>

text \<open>
  The error that \<open>useGlobal\<close> throws itself (line 34) is the outcome exactly when neither
  the provider's client nor the singleton is there.
\<close>

lemma line34_error:
  "(useGlobal ctx g key i w = Inl NoQueryClientAvailable) = (ctx = None \<and> g = None)"
  by (cases "falsy key"; cases key)
     (auto simp: useGlobal_def useQueryClient_def useQuery_def Let_def
           split: option.splits sum.splits prod.splits)

text \<open>
  C7 says that a call fails for want of a client only when neither the provider's client
  nor the singleton can be resolved, and that with the singleton at hand this never
  happens. In a component with no provider above it, with the singleton that the registry
  module constructed (client 0, its cache empty), \<open>useGlobal("K", 1)\<close> resolves the
  singleton at lines 26 to 31 and then fails all the same, with the library's error for a
  missing client: line 56 calls \<open>useQuery\<close> without the client just resolved. The call in
  accessor mode in the same place succeeds on the singleton.
\<close>

theorem hook_mode_without_provider_fails:
  "queryClient (emptyWorld :: nat world) = (0, started) \<and>
   caches (started :: nat world) 0 = Map.empty \<and>
   useGlobal None (Some (fst (queryClient (emptyWorld :: nat world)))) (Some (KeyString ''K''))
     (InitialValue (Val (1::nat))) started = Inl NoQueryClientSet \<and>
   useGlobal None (Some (fst (queryClient (emptyWorld :: nat world)))) None
     (InitialValue (Val (1::nat))) started = Inr (Accessor (get 0), started)"
proof -
  have s: "queryClient (emptyWorld :: nat world) = (0, started)"
    unfolding started_def by (simp add: emptyWorld_def queryClient_def new_QueryClient_def)
  have c: "caches (started :: nat world) 0 = Map.empty"
    unfolding started_def by (simp add: emptyWorld_def queryClient_def new_QueryClient_def)
  have h: "useGlobal None (Some 0) (Some (KeyString ''K'')) (InitialValue (Val (1::nat))) started
      = Inl NoQueryClientSet"
    by (simp add: useGlobal_no_provider)
  have a: "useGlobal None (Some 0) None (InitialValue (Val (1::nat))) started
      = Inr (Accessor (get 0), started)"
    by (simp add: useGlobal_accessor(2))
  from s c h a show ?thesis by simp
qed

section \<open>The registry\<close>

lemma queryClient_again: "queryClient (snd (queryClient w)) = queryClient w"
  by (simp add: queryClient_def new_QueryClient_def split: option.splits)

lemma queryClient_funpow:
  "((snd \<circ> queryClient) ^^ n) (snd (queryClient w)) = snd (queryClient w)"
  by (induction n) (simp_all add: queryClient_again)

text \<open>Nothing in \<open>useGlobal\<close> or in the functions it returns writes the registry's slot.\<close>

lemma slot_useQuery:
  "useQuery ctx opts w = Inr (d, w') \<Longrightarrow> astroQueryClient w' = astroQueryClient w"
  by (cases ctx) (auto simp: useQuery_def useQueryClient_def putQuery_def Let_def)

lemma slot_preserved:
  "astroQueryClient (setData c k d a w) = astroQueryClient w"
  "astroQueryClient (reset c k w) = astroQueryClient w"
  "astroQueryClient (refresh c k w) = astroQueryClient w"
  "useGlobal ctx g key i w = Inr (r, w') \<Longrightarrow> astroQueryClient w' = astroQueryClient w"
proof -
  show "astroQueryClient (setData c k d a w) = astroQueryClient w"
    by (simp add: setData_def setQueryData_def putQuery_def Let_def split: jsval.splits)
  show "astroQueryClient (reset c k w) = astroQueryClient w"
    by (simp add: reset_def removeQueries_def)
  show "astroQueryClient (refresh c k w) = astroQueryClient w"
    by (simp add: refresh_def invalidateQueries_def)
  show "astroQueryClient w' = astroQueryClient w" if "useGlobal ctx g key i w = Inr (r, w')"
    using that
    by (auto simp: useGlobal_def Let_def dest: slot_useQuery
          split: option.splits sum.splits prod.splits if_splits)
qed

text \<open>
  C8: access to the registry is idempotent. After a first access, any number \<open>n\<close> of
  further accesses returns the same client and leaves the state as the first access left
  it; the slot then holds that client. If the slot was empty the first access constructs
  the client (a fresh reference with an empty cache); if it held a client, that client is
  returned and nothing changes. The setter, \<open>reset\<close>, \<open>refresh\<close> and \<open>useGlobal\<close> itself
  leave the slot as it is.
\<close>

theorem registry_idempotent:
  "queryClient (((snd \<circ> queryClient) ^^ n) (snd (queryClient w))) = queryClient w \<and>
   astroQueryClient (snd (queryClient w)) = Some (fst (queryClient w)) \<and>
   (astroQueryClient w = None \<longrightarrow>
      fst (queryClient w) = constructed w \<and>
      caches (snd (queryClient w)) (fst (queryClient w)) = Map.empty \<and>
      constructed (snd (queryClient w)) = Suc (constructed w)) \<and>
   (\<forall>c. astroQueryClient w = Some c \<longrightarrow> queryClient w = (c, w)) \<and>
   astroQueryClient (setData c k d a w) = astroQueryClient w \<and>
   astroQueryClient (reset c k w) = astroQueryClient w \<and>
   astroQueryClient (refresh c k w) = astroQueryClient w \<and>
   (\<forall>r w'. useGlobal ctx g key i w = Inr (r, w') \<longrightarrow> astroQueryClient w' = astroQueryClient w)"
proof -
  have a1: "queryClient (((snd \<circ> queryClient) ^^ n) (snd (queryClient w))) = queryClient w"
    by (simp only: queryClient_funpow queryClient_again)
  have a2: "astroQueryClient (snd (queryClient w)) = Some (fst (queryClient w))"
    by (simp add: queryClient_def new_QueryClient_def split: option.splits)
  have a3: "astroQueryClient w = None \<longrightarrow>
      fst (queryClient w) = constructed w \<and>
      caches (snd (queryClient w)) (fst (queryClient w)) = Map.empty \<and>
      constructed (snd (queryClient w)) = Suc (constructed w)"
    by (simp add: queryClient_def new_QueryClient_def)
  have a4: "\<forall>c. astroQueryClient w = Some c \<longrightarrow> queryClient w = (c, w)"
    by (simp add: queryClient_def)
  have a5: "\<forall>r w'. useGlobal ctx g key i w = Inr (r, w') \<longrightarrow>
      astroQueryClient w' = astroQueryClient w"
    using slot_preserved(4) by blast
  note a6 = slot_preserved(1) [of c k d a w] and a7 = slot_preserved(2) [of c k w]
    and a8 = slot_preserved(3) [of c k w]
  show ?thesis
    by (intro conjI) (rule a1, rule a2, rule a3, rule a4, rule a6, rule a7, rule a8, rule a5)
qed

theorem registry_idempotent_witness:
  "astroQueryClient (emptyWorld :: nat world) = None \<and>
   queryClient (emptyWorld :: nat world) = (0, started) \<and>
   caches (started :: nat world) 0 = Map.empty \<and>
   queryClient (started :: nat world) = (0, started) \<and>
   queryClient (((snd \<circ> queryClient) ^^ 3) (started :: nat world)) = (0, started)"
proof -
  note T = registry_idempotent [of 3 "emptyWorld :: nat world" 0 "[]" Undefined
      "NewValue Undefined" None None None "InitialValue Undefined"]
  have e: "astroQueryClient (emptyWorld :: nat world) = None"
    by (simp add: emptyWorld_def)
  have s: "queryClient (emptyWorld :: nat world) = (0, started)"
    unfolding started_def by (simp add: emptyWorld_def queryClient_def new_QueryClient_def)
  have c: "caches (started :: nat world) 0 = Map.empty"
    unfolding started_def by (simp add: emptyWorld_def queryClient_def new_QueryClient_def)
  have "queryClient (((snd \<circ> queryClient) ^^ 3) (snd (queryClient (emptyWorld :: nat world)))) =
        queryClient emptyWorld"
    using T by (rule conjunct1)
  then have 3: "queryClient (((snd \<circ> queryClient) ^^ 3) (started :: nat world)) = (0, started)"
    by (simp only: s snd_conv)
  have "queryClient (started :: nat world) = (0, started)"
    unfolding started_def by (simp add: emptyWorld_def queryClient_def new_QueryClient_def)
  with e s c 3 show ?thesis by blast
qed

section \<open>Mode dispatch\<close>

text \<open>
  C10: with the empty string as key, \<open>useGlobal\<close> returns the accessor object, under a
  provider and on the singleton alike, exactly as a call without a key does; with the
  empty array as key it returns the tuple of hook mode, for the entry whose key is the
  namespace token followed by the empty string.
\<close>

theorem empty_string_is_accessor_mode:
  "useGlobal (Some c) g (Some (KeyString [])) i w = Inr (Accessor (get c), w) \<and>
   useGlobal None (Some c) (Some (KeyString [])) i w = Inr (Accessor (get c), w) \<and>
   useGlobal ctx g (Some (KeyString [])) i w = useGlobal ctx g None i w \<and>
   (\<exists>d w'. useGlobal (Some c) g (Some (KeyArray [])) i w =
      Inr (Hook d (setData c [GLOBAL_KEY, []] d) (refresh c [GLOBAL_KEY, []])
             (reset c [GLOBAL_KEY, []]), w'))"
  by (auto simp: useGlobal_def useQueryClient_def useQuery_def theKey_def Let_def
       split: option.splits sum.splits prod.splits)

section \<open>Writing and reading\<close>

text \<open>
  C1, as the code has it: for every key \<open>k\<close> and every value \<open>v\<close> other than
  \<open>undefined\<close>, after \<open>setValue(v)\<close> of a tuple that hook mode returned for \<open>k\<close>, called
  in any later state, a hook-mode read of \<open>k\<close> under the same client returns \<open>v\<close>
  (whatever initial value it passes), accessor mode under that client returns the
  accessor of that client, and its \<open>get(k)\<close> returns \<open>v\<close>.
\<close>

theorem setValue_then_read:
  assumes "useGlobal (Some c) g (Some k) i0 w0 = Inr (Hook d setValue rf rs, w1)"
    and "v \<noteq> Undefined"
  shows "(\<exists>w'. useGlobal (Some c) g' (Some k) i (setValue (NewValue v) w) =
            Inr (Hook v (setData c (theKey k) v) (refresh c (theKey k)) (reset c (theKey k)), w')) \<and>
         useGlobal (Some c) g' None i (setValue (NewValue v) w) =
            Inr (Accessor (get c), setValue (NewValue v) w) \<and>
         get c k (setValue (NewValue v) w) = v"
proof -
  from assms(1) have k: "\<not> falsy (Some k)" and sv: "setValue = setData c (theKey k) d"
    using useGlobal_HookD by blast+
  let ?w = "setValue (NewValue v) w"
  have w: "?w = setQueryData c (theKey k) v w"
    by (simp add: sv setData_def)
  from assms(2) obtain q where q: "caches ?w c (theKey k) = Some q" "data q = v"
    unfolding w by (cases v) (simp_all add: setQueryData_def caches_putQuery Let_def)
  have "useQuery (Some c) (hookOptions (theKey k) (theInitialData i)) ?w =
          Inr (v, putQuery c (theKey k)
                 (q\<lparr>observers := observers q @ [hookOptions (theKey k) (theInitialData i)]\<rparr>) ?w)"
    using useQuery_present [OF q(1)] q(2) assms(2) by simp
  then have hook: "\<exists>w'. useGlobal (Some c) g' (Some k) i ?w =
            Inr (Hook v (setData c (theKey k) v) (refresh c (theKey k)) (reset c (theKey k)), w')"
    by (simp add: useGlobal_hook [OF k])
  have acc: "useGlobal (Some c) g' None i ?w = Inr (Accessor (get c), ?w)"
    by (simp add: useGlobal_accessor)
  have "get c k ?w = orNull v"
    by (simp add: get_def w getQueryData_setQueryData [OF assms(2)])
  with assms(2) have "get c k ?w = v" by (cases v) simp_all
  with hook acc show ?thesis by blast
qed

text \<open>The scenario of the specification: the theme is seeded \<open>light\<close> and set to \<open>dark\<close>.\<close>

theorem setValue_then_read_witness:
  "case useGlobal (Some 0) (Some 0) (Some (KeyString ''THEME'')) (InitialValue (Val ''light''))
          started of
      Inr (Hook d setValue rf rs, w) \<Rightarrow>
        d = Val ''light'' \<and>
        (\<exists>w'. useGlobal (Some 0) (Some 0) (Some (KeyString ''THEME'')) (InitialValue Undefined)
                 (setValue (NewValue (Val ''dark'')) w) =
               Inr (Hook (Val ''dark'') (setData 0 (theKey (KeyString ''THEME'')) (Val ''dark''))
                      (refresh 0 (theKey (KeyString ''THEME'')))
                      (reset 0 (theKey (KeyString ''THEME''))), w')) \<and>
        get 0 (KeyString ''THEME'') (setValue (NewValue (Val ''dark'')) w) = Val ''dark''
    | _ \<Rightarrow> False"
proof -
  obtain w where h: "useGlobal (Some 0) (Some 0) (Some (KeyString ''THEME''))
      (InitialValue (Val ''light'')) started =
      Inr (Hook (Val ''light'') (setData 0 (theKey (KeyString ''THEME'')) (Val ''light''))
             (refresh 0 (theKey (KeyString ''THEME''))) (reset 0 (theKey (KeyString ''THEME''))), w)"
    by (simp add: useGlobal_hook useQuery_absent theInitialData_simps started_def emptyWorld_def
        queryClient_def new_QueryClient_def)
  have v: "Val ''dark'' \<noteq> (Undefined :: string jsval)" by simp
  show ?thesis
    using setValue_then_read [OF h v, of "Some 0" "InitialValue Undefined" w]
    by (simp add: h)
qed

text \<open>
  C1 as stated fails at \<open>v = undefined\<close>: on a fresh cache, after hook mode for \<open>"K"\<close> and
  \<open>setValue(undefined)\<close>, \<open>get("K")\<close> is \<open>null\<close>, which is not \<open>undefined\<close>.
\<close>

theorem setValue_undefined_not_read_back:
  "(case useGlobal (Some 0) (Some 0) (Some (KeyString ''K'')) (InitialValue Undefined)
          (started :: nat world) of
      Inr (Hook d setValue rf rs, w) \<Rightarrow>
        get 0 (KeyString ''K'') (setValue (NewValue Undefined) w) = Null
    | _ \<Rightarrow> False) \<and>
   (Null :: nat jsval) \<noteq> Undefined"
  by (simp add: run_defs)

section \<open>One entry for all callers\<close>

text \<open>
  C2: for every key \<open>k\<close> that takes hook mode and has no entry in the client's cache, the
  call \<open>useGlobal(k, i)\<close> creates the entry and returns \<open>i\<close> (the initializer's result if
  \<open>i\<close> is a function); a second call \<open>useGlobal(k)\<close> without initial value returns the
  same value, from the same entry: after both calls the cache holds one entry under the
  encoded key, with both callers as its observers, and every other entry of every cache
  is as before.
\<close>

theorem one_shared_entry:
  assumes "\<not> falsy (Some k)" and "caches w c (theKey k) = None"
  shows "\<exists>w1 w2 q1 q2.
           useGlobal (Some c) g (Some k) i w =
             Inr (Hook (theInitialData i) (setData c (theKey k) (theInitialData i))
                    (refresh c (theKey k)) (reset c (theKey k)), w1) \<and>
           caches w1 c (theKey k) = Some q1 \<and> data q1 = theInitialData i \<and>
           useGlobal (Some c) g' (Some k) (InitialValue Undefined) w1 =
             Inr (Hook (theInitialData i) (setData c (theKey k) (theInitialData i))
                    (refresh c (theKey k)) (reset c (theKey k)), w2) \<and>
           caches w2 c (theKey k) = Some q2 \<and> data q2 = theInitialData i \<and>
           length (observers q2) = 2 \<and>
           (\<forall>c' k'. (c', k') \<noteq> (c, theKey k) \<longrightarrow> caches w2 c' k' = caches w c' k')"
proof -
  let ?K = "theKey k" and ?d = "theInitialData i"
  let ?q1 = "(newQuery ?d)\<lparr>observers := [hookOptions ?K ?d]\<rparr>"
  let ?w1 = "putQuery c ?K ?q1 w"
  let ?q2 = "?q1\<lparr>observers := observers ?q1 @ [hookOptions ?K Undefined]\<rparr>"
  let ?w2 = "putQuery c ?K ?q2 ?w1"
  have 1: "useGlobal (Some c) g (Some k) i w =
             Inr (Hook ?d (setData c ?K ?d) (refresh c ?K) (reset c ?K), ?w1)"
    by (simp add: useGlobal_hook [OF assms(1)] useQuery_absent [OF assms(2)])
  have q1: "caches ?w1 c ?K = Some ?q1" by (simp add: caches_putQuery)
  have d1: "data ?q1 = ?d" by (simp add: newQuery_def)
  have 2: "useGlobal (Some c) g' (Some k) (InitialValue Undefined) ?w1 =
             Inr (Hook ?d (setData c ?K ?d) (refresh c ?K) (reset c ?K), ?w2)"
    using useQuery_present [OF q1, of Undefined]
    by (simp add: useGlobal_hook [OF assms(1)] theInitialData_simps d1)
  have q2: "caches ?w2 c ?K = Some ?q2" by (simp add: caches_putQuery)
  have d2: "data ?q2 = ?d" "length (observers ?q2) = 2" by (simp_all add: newQuery_def)
  have fr: "\<forall>c' k'. (c', k') \<noteq> (c, ?K) \<longrightarrow> caches ?w2 c' k' = caches w c' k'"
    by (simp add: caches_putQuery)
  from 1 q1 d1 2 q2 d2 fr show ?thesis by blast
qed

text \<open>The language selector of the README, and a second reader of its key.\<close>

theorem one_shared_entry_witness:
  "\<exists>w1 w2 q2.
     useGlobal (Some 0) (Some 0) (Some (KeyString ''LANGUAGE'')) (InitialValue (Val ''en'')) started =
       Inr (Hook (Val ''en'') (setData 0 (theKey (KeyString ''LANGUAGE'')) (Val ''en''))
              (refresh 0 (theKey (KeyString ''LANGUAGE'')))
              (reset 0 (theKey (KeyString ''LANGUAGE''))), w1) \<and>
     useGlobal (Some 0) (Some 0) (Some (KeyString ''LANGUAGE'')) (InitialValue Undefined) w1 =
       Inr (Hook (Val ''en'') (setData 0 (theKey (KeyString ''LANGUAGE'')) (Val ''en''))
              (refresh 0 (theKey (KeyString ''LANGUAGE'')))
              (reset 0 (theKey (KeyString ''LANGUAGE''))), w2) \<and>
     caches w2 0 (theKey (KeyString ''LANGUAGE'')) = Some q2 \<and> data q2 = Val ''en'' \<and>
     length (observers q2) = 2"
proof -
  have a: "\<not> falsy (Some (KeyString ''LANGUAGE''))" by simp
  have b: "caches (started :: string world) 0 (theKey (KeyString ''LANGUAGE'')) = None"
    by (simp add: started_def emptyWorld_def queryClient_def new_QueryClient_def)
  show ?thesis
    using one_shared_entry [OF a b, of "Some 0" "InitialValue (Val ''en'')" "Some 0"]
    by (simp add: theInitialData_simps) blast
qed

section \<open>Reading a key nobody has seeded\<close>

text \<open>
  Hook mode without initial value on a key without entry returns \<open>undefined\<close>: the query
  is built with no data and line 73 returns its data as it is.
\<close>

lemma unseeded_hook_read:
  assumes "\<not> falsy (Some k)" and "caches w c (theKey k) = None"
  shows "\<exists>w'. useGlobal (Some c) g (Some k) (InitialValue Undefined) w =
           Inr (Hook Undefined (setData c (theKey k) Undefined) (refresh c (theKey k))
                  (reset c (theKey k)), w')"
  by (simp add: useGlobal_hook [OF assms(1)] useQuery_absent [OF assms(2)] theInitialData_simps)

text \<open>
  C3 says the value returned is \<open>null\<close>. On a fresh cache, \<open>useGlobal("K")\<close> returns
  \<open>undefined\<close> as its first component, while the accessor's \<open>get("K")\<close> in the state the
  call leaves returns \<open>null\<close>.
\<close>

theorem unseeded_hook_read_is_undefined:
  "(case useGlobal (Some 0) (Some 0) (Some (KeyString ''K'')) (InitialValue Undefined)
          (started :: nat world) of
      Inr (Hook d setValue rf rs, w) \<Rightarrow> d = Undefined \<and> get 0 (KeyString ''K'') w = Null
    | _ \<Rightarrow> False) \<and>
   (Undefined :: nat jsval) \<noteq> Null"
  by (simp add: run_defs)

section \<open>Updater functions\<close>

text \<open>
  The setter applies an updater to \<open>data\<close>, the value its hook call returned, not to what
  the cache holds when the setter runs.
\<close>

lemma setData_updater: "setData c k d (Updater f) w = setQueryData c k (f d) w"
  by (simp add: setData_def)

text \<open>
  C4 says an updater is applied to the value stored immediately before the write. With
  \<^verbatim>\<open>const [n, setN] = useGlobal("COUNT", 0)\<close>, one \<^verbatim>\<open>setN(n => n + 1)\<close> stores 1, and a
  second one from the same tuple stores 1 again, where the increment of the stored 1 is 2.
\<close>

theorem updater_sees_the_value_read_at_the_call:
  "case useGlobal (Some 0) (Some 0) (Some (KeyString ''COUNT'')) (InitialValue (Val 0)) started of
      Inr (Hook d setValue rf rs, w) \<Rightarrow>
        d = Val 0 \<and>
        getQueryData 0 (theKey (KeyString ''COUNT'')) (setValue (Updater increment) w) = Val 1 \<and>
        getQueryData 0 (theKey (KeyString ''COUNT''))
          (setValue (Updater increment) (setValue (Updater increment) w)) = Val 1 \<and>
        increment (Val 1) = Val 2
    | _ \<Rightarrow> False"
  by (simp add: run_defs increment_def)

section \<open>Key encoding\<close>

text \<open>
  The encoded key is the namespace token followed by the string itself or by the array
  joined with a dot, so an array and its joined string are encoded alike, and the
  accessor's \<open>get\<close> reads the same entry for both. A call of \<open>useGlobal\<close> with the array
  equals the call with the joined string when the joined string is not empty.
\<close>

lemma key_encoding:
  "theKey (KeyArray xs) = theKey (KeyString (join xs ''.'')) \<and>
   get c (KeyArray xs) w = get c (KeyString (join xs ''.'')) w \<and>
   (join xs ''.'' \<noteq> [] \<longrightarrow>
      useGlobal ctx g (Some (KeyArray xs)) i w =
      useGlobal ctx g (Some (KeyString (join xs ''.''))) i w)"
proof -
  have "useGlobal ctx g (Some (KeyArray xs)) i w =
        useGlobal ctx g (Some (KeyString (join xs ''.''))) i w" if "join xs ''.'' \<noteq> []"
    using that by (simp add: useGlobal_def theKey_def Let_def split: option.splits)
  then show ?thesis by (simp add: theKey_def get_def)
qed

lemma key_encoding_example:
  "join [''a'', ''b''] ''.'' = ''a.b'' \<and>
   theKey (KeyArray [''a'', ''b'']) = [''__GLOBAL_STATE__'', ''a.b''] \<and>
   get 0 (KeyArray [''a'', ''b'']) (started :: nat world) = get 0 (KeyString ''a.b'') started \<and>
   useGlobal (Some 0) (Some 0) (Some (KeyArray [''a'', ''b''])) (InitialValue (Val (1::nat))) started =
   useGlobal (Some 0) (Some 0) (Some (KeyString ''a.b'')) (InitialValue (Val 1)) started"
  using key_encoding [of "[''a'', ''b'']" 0 "started :: nat world" "Some 0" "Some 0"
      "InitialValue (Val 1)"]
  by (simp add: theKey_def GLOBAL_KEY_def)

text \<open>
  C5 says that for every array the hook-mode and the accessor-mode lookups for the array
  and for its joined string address the same cache entry. For the empty array, and for the
  array holding the empty string, the joined string is empty and the two keys are encoded
  alike; but the call with the array is in hook mode and creates the entry, while the call
  with the string, which the test of line 40 takes for a call without key, returns the
  accessor object and creates no entry.
\<close>

theorem empty_join_changes_mode:
  "join [] ''.'' = [] \<and> join [[]] ''.'' = [] \<and>
   theKey (KeyArray []) = theKey (KeyString (join [] ''.'')) \<and>
   theKey (KeyArray [[]]) = theKey (KeyString (join [[]] ''.'')) \<and>
   (case useGlobal (Some 0) (Some 0) (Some (KeyArray [])) (InitialValue (Val (1::nat))) started of
      Inr (Hook d setValue rf rs, w) \<Rightarrow>
        d = Val 1 \<and> caches w 0 (theKey (KeyArray [])) \<noteq> None
    | _ \<Rightarrow> False) \<and>
   (case useGlobal (Some 0) (Some 0) (Some (KeyArray [[]])) (InitialValue (Val (1::nat))) started of
      Inr (Hook d setValue rf rs, w) \<Rightarrow>
        d = Val 1 \<and> caches w 0 (theKey (KeyArray [[]])) \<noteq> None
    | _ \<Rightarrow> False) \<and>
   (case useGlobal (Some 0) (Some 0) (Some (KeyString (join [] ''.''))) (InitialValue (Val (1::nat)))
           started of
      Inr (Accessor g, w) \<Rightarrow> caches w 0 (theKey (KeyString (join [] ''.''))) = None
    | _ \<Rightarrow> False)"
  by (simp add: run_defs)

section \<open>Reset\<close>

text \<open>
  C6: \<open>reset()\<close> of a tuple that hook mode returned for \<open>k\<close>, called in any later state,
  leaves the cache without an entry for \<open>k\<close> (the accessor reads \<open>null\<close>), and a hook-mode
  call for \<open>k\<close> right after it, with initial value \<open>i2\<close>, returns \<open>i2\<close>, whatever was stored
  before.
\<close>

theorem reset_then_reseed:
  assumes "useGlobal (Some c) g (Some k) i1 w0 = Inr (Hook d setValue rf rs, w1)"
  shows "caches (rs w) c (theKey k) = None \<and>
         get c k (rs w) = Null \<and>
         (\<exists>w'. useGlobal (Some c) g' (Some k) i2 (rs w) =
            Inr (Hook (theInitialData i2) (setData c (theKey k) (theInitialData i2))
                   (refresh c (theKey k)) (reset c (theKey k)), w'))"
proof -
  from assms have k: "\<not> falsy (Some k)" and rs: "rs = reset c (theKey k)"
    using useGlobal_HookD by blast+
  have gone: "caches (rs w) c (theKey k) = None"
    by (simp add: rs reset_def caches_removeQueries_self)
  then have "get c k (rs w) = Null"
    by (simp add: get_def getQueryData_def)
  with gone show ?thesis
    by (simp add: useGlobal_hook [OF k] useQuery_absent [OF gone])
qed

text \<open>The theme is seeded \<open>light\<close>, set to \<open>dark\<close>, reset, and read with \<open>blue\<close>.\<close>

theorem reset_then_reseed_witness:
  "case useGlobal (Some 0) (Some 0) (Some (KeyString ''THEME'')) (InitialValue (Val ''light''))
          started of
      Inr (Hook d setValue rf rs, w) \<Rightarrow>
        getQueryData 0 (theKey (KeyString ''THEME'')) (setValue (NewValue (Val ''dark'')) w)
          = Val ''dark'' \<and>
        caches (rs (setValue (NewValue (Val ''dark'')) w)) 0 (theKey (KeyString ''THEME'')) = None \<and>
        (\<exists>w'. useGlobal (Some 0) (Some 0) (Some (KeyString ''THEME'')) (InitialValue (Val ''blue''))
                 (rs (setValue (NewValue (Val ''dark'')) w)) =
               Inr (Hook (Val ''blue'') (setData 0 (theKey (KeyString ''THEME'')) (Val ''blue''))
                      (refresh 0 (theKey (KeyString ''THEME'')))
                      (reset 0 (theKey (KeyString ''THEME''))), w'))
    | _ \<Rightarrow> False"
proof -
  obtain w where h: "useGlobal (Some 0) (Some 0) (Some (KeyString ''THEME''))
      (InitialValue (Val ''light'')) started =
      Inr (Hook (Val ''light'') (setData 0 (theKey (KeyString ''THEME'')) (Val ''light''))
             (refresh 0 (theKey (KeyString ''THEME''))) (reset 0 (theKey (KeyString ''THEME''))), w)"
    by (simp add: useGlobal_hook useQuery_absent theInitialData_simps started_def emptyWorld_def
        queryClient_def new_QueryClient_def)
  have "getQueryData 0 (theKey (KeyString ''THEME''))
          (setData 0 (theKey (KeyString ''THEME'')) (Val ''light'') (NewValue (Val ''dark'')) w)
        = Val ''dark''"
    by (simp add: setData_def getQueryData_setQueryData)
  then show ?thesis
    using reset_then_reseed [OF h, of "setData 0 (theKey (KeyString ''THEME'')) (Val ''light'')
        (NewValue (Val ''dark'')) w" "Some 0" "InitialValue (Val ''blue'')"]
    by (simp add: h theInitialData_simps)
qed

section \<open>Refresh\<close>




end
